theory Spec2Isabelle
  imports Main
begin

section \<open>Exceptions\<close>

text \<open>
  The program is \<^verbatim>\<open>serve.py\<close>: a command-line wrapper that validates a directory,
  probes for a port with \<^verbatim>\<open>find_free_port\<close>, builds a threading HTTP server on that
  port and serves until interrupted.

  Exceptions are values. \<^verbatim>\<open>except OSError\<close> catches \<open>OSError\<close> with any error
  number (Python's \<^verbatim>\<open>PermissionError\<close> is a subclass of \<^verbatim>\<open>OSError\<close>), and nothing
  else; in particular not \<open>OverflowError\<close>, which is what the socket module raises
  for a port outside \<open>0..65535\<close>.
\<close>

datatype errno = EADDRINUSE | EACCES | EBADF

datatype exn =
    OSError errno
  | OverflowError
  | KeyboardInterrupt
  | SystemExit int
  | OtherException string

section \<open>The socket layer as the program sees it\<close>

text \<open>
  The operating system is explicit state. It records the loopback ports held by other
  processes (\<open>in_use\<close>), the ports the system hands out when asked for port \<open>0\<close>, in
  the order it tries them (\<open>eph_range\<close>), the bound below which a port needs a
  privilege the process does not have (\<open>priv_below\<close>; \<open>0\<close> when there is none), the
  sockets this process has open, and the trace of what the process did and printed.
  Creating a socket is taken to succeed (descriptor exhaustion is left out).
\<close>

record sock =
  fd :: nat
  bound_port :: "int option"
  listening :: bool

datatype event =
    Opened nat
  | BindCall nat int
  | Bound nat int
  | Listening nat
  | Closed nat
  | ServeForever nat
  | Stdout string
  | Stderr string

record os_state =
  in_use :: "int list"
  eph_range :: "int list"
  priv_below :: int
  open_socks :: "sock list"
  trace :: "event list"

definition emit :: "event \<Rightarrow> os_state \<Rightarrow> os_state" where
  "emit e st = st\<lparr>trace := trace st @ [e]\<rparr>"

definition fresh_fd :: "os_state \<Rightarrow> nat" where
  "fresh_fd st = Suc (fold max (map fd (open_socks st)) 0)"

definition ports_taken :: "os_state \<Rightarrow> int list" where
  "ports_taken st = in_use st @ List.map_filter bound_port (open_socks st)"

definition listening_ports :: "os_state \<Rightarrow> int list" where
  "listening_ports st =
     List.map_filter (\<lambda>k. if listening k then bound_port k else None) (open_socks st)"

definition ephemeral :: "os_state \<Rightarrow> int option" where
  "ephemeral st = find (\<lambda>q. q \<notin> set (ports_taken st)) (eph_range st)"

definition set_port :: "nat \<Rightarrow> int \<Rightarrow> os_state \<Rightarrow> os_state" where
  "set_port s p st =
     st\<lparr>open_socks := map (\<lambda>k. if fd k = s then k\<lparr>bound_port := Some p\<rparr> else k) (open_socks st)\<rparr>"

text \<open>\<^verbatim>\<open>socket.socket(AF_INET, SOCK_STREAM)\<close>: a new, unbound socket.\<close>

definition socket_socket :: "os_state \<Rightarrow> nat \<times> os_state" where
  "socket_socket st =
     (let s = fresh_fd st in
      (s, emit (Opened s)
            (st\<lparr>open_socks := open_socks st @ [\<lparr>fd = s, bound_port = None, listening = False\<rparr>]\<rparr>)))"

text \<open>
  \<^verbatim>\<open>s.bind(("127.0.0.1", p))\<close>. The port is range-checked before the system call
  (\<open>OverflowError\<close>). Port \<open>0\<close> asks the system for an ephemeral port; a port below
  \<open>priv_below\<close> is refused with \<open>EACCES\<close>, a port already held with \<open>EADDRINUSE\<close>.
\<close>

definition sock_bind :: "nat \<Rightarrow> int \<Rightarrow> os_state \<Rightarrow> (exn + unit) \<times> os_state" where
  "sock_bind s p st0 =
     (let st = emit (BindCall s p) st0 in
      if p < 0 \<or> 65535 < p then (Inl OverflowError, st)
      else if s \<notin> fd ` set (open_socks st) then (Inl (OSError EBADF), st)
      else if p = 0 then
        (case ephemeral st of
           None \<Rightarrow> (Inl (OSError EADDRINUSE), st)
         | Some q \<Rightarrow> (Inr (), emit (Bound s q) (set_port s q st)))
      else if p < priv_below st then (Inl (OSError EACCES), st)
      else if p \<in> set (ports_taken st) then (Inl (OSError EADDRINUSE), st)
      else (Inr (), emit (Bound s p) (set_port s p st)))"

text \<open>\<^verbatim>\<open>s.getsockname()[1]\<close>: the port of the socket's address, \<open>0\<close> while unbound.\<close>

definition getsockname :: "nat \<Rightarrow> os_state \<Rightarrow> exn + int" where
  "getsockname s st =
     (case find (\<lambda>k. fd k = s) (open_socks st) of
        None \<Rightarrow> Inl (OSError EBADF)
      | Some k \<Rightarrow> Inr (case bound_port k of None \<Rightarrow> 0 | Some p \<Rightarrow> p))"

text \<open>\<^verbatim>\<open>s.close()\<close>: the socket is gone, and with it its hold on a port.\<close>

definition sock_close :: "nat \<Rightarrow> os_state \<Rightarrow> os_state" where
  "sock_close s st =
     emit (Closed s) (st\<lparr>open_socks := filter (\<lambda>k. fd k \<noteq> s) (open_socks st)\<rparr>)"

definition sock_listen :: "nat \<Rightarrow> os_state \<Rightarrow> os_state" where
  "sock_listen s st =
     emit (Listening s)
       (st\<lparr>open_socks := map (\<lambda>k. if fd k = s then k\<lparr>listening := True\<rparr> else k) (open_socks st)\<rparr>)"

section \<open>find_free_port\<close>

text \<open>
  \<^verbatim>\<open>
  def find_free_port(preferred: int) -> int:
      with contextlib.closing(socket.socket(socket.AF_INET, socket.SOCK_STREAM)) as s:
          try:
              s.bind(("127.0.0.1", preferred))
              return preferred
          except OSError:
              s.bind(("127.0.0.1", 0))
              return s.getsockname()[1]
  \<close>
  The \<^verbatim>\<open>with\<close> block closes the socket on every way out, a return or an exception.
\<close>

definition find_free_port :: "int \<Rightarrow> os_state \<Rightarrow> (exn + int) \<times> os_state" where
  "find_free_port preferred st0 =
     (let (s, st1) = socket_socket st0;
          (r, st2) =
            (case sock_bind s preferred st1 of
               (Inr _, st) \<Rightarrow> (Inr preferred, st)
             | (Inl (OSError _), st) \<Rightarrow>
                 (case sock_bind s 0 st of
                    (Inr _, st') \<Rightarrow> (getsockname s st', st')
                  | (Inl x, st') \<Rightarrow> (Inl x, st'))
             | (Inl x, st) \<Rightarrow> (Inl x, st))
      in (r, sock_close s st2))"

section \<open>main\<close>

text \<open>
  The server constructor \<^verbatim>\<open>ThreadingHTTPServer(("127.0.0.1", port), handler_cls)\<close>
  creates the listening socket, binds it and starts listening; when the bind fails it
  closes the socket and re-raises.
\<close>

definition server_init :: "int \<Rightarrow> os_state \<Rightarrow> (exn + nat) \<times> os_state" where
  "server_init p st0 =
     (let (s, st1) = socket_socket st0 in
      case sock_bind s p st1 of
        (Inl x, st2) \<Rightarrow> (Inl x, sock_close s st2)
      | (Inr _, st2) \<Rightarrow> (Inr s, sock_listen s st2))"

definition server_close :: "nat \<Rightarrow> os_state \<Rightarrow> os_state" where
  "server_close httpd st = sock_close httpd st"

text \<open>
  What \<^verbatim>\<open>httpd.serve_forever()\<close> does is up to the outside world: an exception
  reaches it (\<open>Raises\<close>), it returns because the server was shut down (\<open>Returns\<close>), or
  it keeps serving (\<open>Never\<close>).
\<close>

datatype serving = Raises exn | Returns | Never

record env =
  abspath :: "string \<Rightarrow> string"
  isdir :: "string \<Rightarrow> bool"
  serve_forever :: serving

record args =
  port :: int
  dir :: string

text \<open>Python's \<^verbatim>\<open>str\<close> of an integer, as the f-string formats the port.\<close>

fun str_nat :: "nat \<Rightarrow> string" where
  "str_nat n =
     (if n < 10 then [''0123456789'' ! n]
      else str_nat (n div 10) @ [''0123456789'' ! (n mod 10)])"

declare str_nat.simps [simp del]

definition str_int :: "int \<Rightarrow> string" where
  "str_int i = (if i < 0 then CHR ''-'' # str_nat (nat (- i)) else str_nat (nat i))"

text \<open>
  Lines 41 to 53 of \<^verbatim>\<open>main\<close>, up to and including the two lines printed once the
  server is built. The result is the server's socket and the port that was announced.
  \<^verbatim>\<open>
      serve_dir = os.path.abspath(args.dir)
      if not os.path.isdir(serve_dir):
          print(f"Error: directory not found: {serve_dir}", file=sys.stderr)
          sys.exit(1)
      port = find_free_port(args.port)
      handler_cls = functools.partial(SimpleHTTPRequestHandler, directory=serve_dir)
      httpd = ThreadingHTTPServer(("127.0.0.1", port), handler_cls)
      print(f"Serving '{serve_dir}' at http://127.0.0.1:{port}")
      print("Press Ctrl+C to stop.")
  \<close>
\<close>

definition main_startup :: "env \<Rightarrow> args \<Rightarrow> os_state \<Rightarrow> (exn + nat \<times> int) \<times> os_state" where
  "main_startup e a st0 =
     (let serve_dir = abspath e (dir a) in
      if \<not> isdir e serve_dir then
        (Inl (SystemExit 1), emit (Stderr (''Error: directory not found: '' @ serve_dir)) st0)
      else
        (case find_free_port (port a) st0 of
           (Inl x, st1) \<Rightarrow> (Inl x, st1)
         | (Inr p, st1) \<Rightarrow>
             (case server_init p st1 of
                (Inl x, st2) \<Rightarrow> (Inl x, st2)
              | (Inr httpd, st2) \<Rightarrow>
                  (Inr (httpd, p),
                   emit (Stdout ''Press Ctrl+C to stop.'')
                     (emit (Stdout (''Serving '' @ [CHR 0x27] @ serve_dir @ [CHR 0x27]
                                      @ '' at http://127.0.0.1:'' @ str_int p)) st2)))))"

text \<open>
  The whole of \<^verbatim>\<open>main\<close>: the start-up above, then
  \<^verbatim>\<open>
      try:
          httpd.serve_forever()
      except KeyboardInterrupt:
          print("\nShutting down...")
      finally:
          httpd.server_close()
  \<close>
\<close>

datatype outcome = Returned | Raised exn | Running

definition main :: "env \<Rightarrow> args \<Rightarrow> os_state \<Rightarrow> outcome \<times> os_state" where
  "main e a st0 =
     (case main_startup e a st0 of
        (Inl x, st) \<Rightarrow> (Raised x, st)
      | (Inr (httpd, p), st) \<Rightarrow>
          (let st' = emit (ServeForever httpd) st in
           case serve_forever e of
             Never \<Rightarrow> (Running, st')
           | Returns \<Rightarrow> (Returned, server_close httpd st')
           | Raises x \<Rightarrow>
               (if x = KeyboardInterrupt then
                  (Returned,
                   server_close httpd (emit (Stdout (CHR 0x0A # ''Shutting down...'')) st'))
                else (Raised x, server_close httpd st'))))"

text \<open>
  The exit status of the process that runs \<^verbatim>\<open>main()\<close> as a script: \<open>0\<close> when
  \<^verbatim>\<open>main\<close> returns, the code of a \<open>SystemExit\<close>, \<open>1\<close> after the traceback of any
  other exception (an uncaught \<open>KeyboardInterrupt\<close> ends the process as the signal
  does, status \<open>130\<close>); none while the server runs.
\<close>

fun exit_status :: "outcome \<Rightarrow> int option" where
  "exit_status Returned = Some 0"
| "exit_status (Raised (SystemExit n)) = Some n"
| "exit_status (Raised KeyboardInterrupt) = Some 130"
| "exit_status (Raised x) = Some 1"
| "exit_status Running = None"

text \<open>A sample machine: port 8000 is held by another process, ports below 1024 are privileged.\<close>

definition os0 :: os_state where
  "os0 = \<lparr>in_use = [8000], eph_range = [49152, 49153, 49154], priv_below = 1024,
          open_socks = [], trace = []\<rparr>"

definition env0 :: env where
  "env0 = \<lparr>abspath = (\<lambda>d. if d = ''.'' then ''/srv/site'' else d),
           isdir = (\<lambda>d. d = ''/srv/site''),
           serve_forever = Raises KeyboardInterrupt\<rparr>"


text \<open>Reading a trace: the events a run added, and the descriptors and ports they name.\<close>

definition new_events :: "os_state \<Rightarrow> os_state \<Rightarrow> event list" where
  "new_events st st' = drop (length (trace st)) (trace st')"

fun opened_fds :: "event list \<Rightarrow> nat list" where
  "opened_fds [] = []"
| "opened_fds (Opened s # evs) = s # opened_fds evs"
| "opened_fds (ev # evs) = opened_fds evs"

fun closed_fds :: "event list \<Rightarrow> nat list" where
  "closed_fds [] = []"
| "closed_fds (Closed s # evs) = s # closed_fds evs"
| "closed_fds (ev # evs) = closed_fds evs"

fun bind_calls :: "event list \<Rightarrow> int list" where
  "bind_calls [] = []"
| "bind_calls (BindCall s p # evs) = p # bind_calls evs"
| "bind_calls (ev # evs) = bind_calls evs"

section \<open>A fresh descriptor is fresh\<close>

lemma fold_max_ge: "x \<in> set xs \<Longrightarrow> x \<le> fold max xs (a::nat)"
proof (induction xs arbitrary: a)
  case Nil
  then show ?case by simp
next
  case (Cons y ys)
  have grows: "\<And>b. b \<le> fold max ys b"
  proof -
    fix b show "b \<le> fold max ys b"
      by (induction ys arbitrary: b) (auto intro: order_trans [OF max.cobounded2])
  qed
  from Cons show ?case
    by (auto intro: order_trans [OF max.cobounded1 grows])
qed

lemma fresh_fd_fresh: "k \<in> set (open_socks st) \<Longrightarrow> fd k \<noteq> fresh_fd st"
  using fold_max_ge [of "fd k" "map fd (open_socks st)" 0]
  by (auto simp: fresh_fd_def)

lemma filter_fresh: "filter (\<lambda>k. fd k \<noteq> fresh_fd st) (open_socks st) = open_socks st"
  by (simp add: filter_id_conv fresh_fd_fresh)

lemma map_fresh:
  "map (\<lambda>k. if fd k = fresh_fd st then f k else k) (open_socks st) = open_socks st"
  by (simp add: map_idI fresh_fd_fresh)

lemma find_fresh: "find (\<lambda>k. fd k = fresh_fd st) (open_socks st) = None"
  by (simp add: find_None_iff fresh_fd_fresh)

lemma find_snoc:
  "find P (xs @ [x]) =
     (case find P xs of None \<Rightarrow> (if P x then Some x else None) | Some y \<Rightarrow> Some y)"
  by (induction xs) auto

lemma map_filter_snoc:
  "List.map_filter f (xs @ [x]) =
     List.map_filter f xs @ (case f x of None \<Rightarrow> [] | Some y \<Rightarrow> [y])"
  by (induction xs) (auto split: option.splits)

lemmas probe_simps =
  socket_socket_def sock_bind_def emit_def ports_taken_def ephemeral_def
  set_port_def getsockname_def sock_close_def Let_def
  filter_fresh map_fresh find_fresh find_snoc map_filter_snoc

text \<open>Unfolding everything, for runs on a concrete machine.\<close>

lemmas run_simps =
  main_def main_startup_def server_init_def server_close_def find_free_port_def
  socket_socket_def sock_bind_def sock_listen_def sock_close_def getsockname_def set_port_def
  ephemeral_def ports_taken_def listening_ports_def fresh_fd_def emit_def new_events_def
  str_int_def str_nat.simps Let_def os0_def env0_def

lemma new_events_trace [simp]: "new_events st (st\<lparr>trace := trace st @ evs\<rparr>) = evs"
  by (simp add: new_events_def)

lemma ephemeral_free:
  "ephemeral st = Some q \<Longrightarrow> q \<in> set (eph_range st) \<and> q \<notin> set (ports_taken st)"
  by (auto simp: ephemeral_def find_Some_iff)

section \<open>What find_free_port does, case by case\<close>

text \<open>
  The outcome of the first \<^verbatim>\<open>bind\<close> on the probe socket, and the whole of
  \<open>find_free_port\<close>, written out over the machine's state. In every case the socket
  table is back to what it was and the trace has grown by the probe's events.
\<close>

lemma first_bind_closed_form:
  "fst (sock_bind (fresh_fd st) preferred (snd (socket_socket st))) =
     (if preferred < 0 \<or> 65535 < preferred then Inl OverflowError
      else if preferred = 0 then
        (case ephemeral st of None \<Rightarrow> Inl (OSError EADDRINUSE) | Some q \<Rightarrow> Inr ())
      else if preferred < priv_below st then Inl (OSError EACCES)
      else if preferred \<in> set (ports_taken st) then Inl (OSError EADDRINUSE)
      else Inr ())"
  by (simp add: probe_simps split: option.splits)

lemma find_free_port_closed_form:
  "find_free_port preferred st =
     (let s = fresh_fd st;
          fin = (\<lambda>r evs. (r, st\<lparr>trace := trace st @ Opened s # evs @ [Closed s]\<rparr>)) in
      if preferred < 0 \<or> 65535 < preferred then
        fin (Inl OverflowError) [BindCall s preferred]
      else if preferred = 0 then
        (case ephemeral st of
           None \<Rightarrow> fin (Inl (OSError EADDRINUSE)) [BindCall s 0, BindCall s 0]
         | Some q \<Rightarrow> fin (Inr 0) [BindCall s 0, Bound s q])
      else if preferred < priv_below st \<or> preferred \<in> set (ports_taken st) then
        (case ephemeral st of
           None \<Rightarrow> fin (Inl (OSError EADDRINUSE)) [BindCall s preferred, BindCall s 0]
         | Some q \<Rightarrow> fin (Inr q) [BindCall s preferred, BindCall s 0, Bound s q])
      else fin (Inr preferred) [BindCall s preferred, Bound s preferred])"
  by (simp add: find_free_port_def probe_simps split: option.splits)

lemma server_init_closed_form:
  "server_init p st =
     (let s = fresh_fd st;
          failed = (\<lambda>x. (Inl x, st\<lparr>trace := trace st @ [Opened s, BindCall s p, Closed s]\<rparr>));
          bound = (\<lambda>q. (Inr s,
                     st\<lparr>open_socks := open_socks st
                                        @ [\<lparr>fd = s, bound_port = Some q, listening = True\<rparr>],
                        trace := trace st @ [Opened s, BindCall s p, Bound s q, Listening s]\<rparr>)) in
      if p < 0 \<or> 65535 < p then failed OverflowError
      else if p = 0 then
        (case ephemeral st of None \<Rightarrow> failed (OSError EADDRINUSE) | Some q \<Rightarrow> bound q)
      else if p < priv_below st then failed (OSError EACCES)
      else if p \<in> set (ports_taken st) then failed (OSError EADDRINUSE)
      else bound p)"
  by (simp add: server_init_def sock_listen_def probe_simps split: option.splits)

lemma listening_ports_snoc:
  "listening_ports
     (st\<lparr>open_socks := open_socks st @ [\<lparr>fd = s, bound_port = Some q, listening = True\<rparr>],
        trace := t\<rparr>) = listening_ports st @ [q]"
  by (simp add: listening_ports_def map_filter_snoc)

lemma listening_ports_emit: "listening_ports (emit ev st) = listening_ports st"
  by (simp add: listening_ports_def emit_def)

lemma server_init_listens:
  assumes "server_init p st = (Inr s, st2)" and "p \<noteq> 0"
  shows "p \<in> set (listening_ports st2)"
  using assms
  by (auto simp: server_init_closed_form listening_ports_snoc Let_def split: if_splits)

lemma find_free_port_nonzero:
  assumes "find_free_port preferred st = (Inr p, st1)"
    and "preferred \<noteq> 0" and "0 \<notin> set (eph_range st)"
  shows "p \<noteq> 0"
  using assms ephemeral_free [of st]
  by (auto simp: find_free_port_closed_form Let_def split: if_splits option.splits)

section \<open>Port selection\<close>

text \<open>
  C2, as stated, does not hold. On the sample machine port 80 is free, yet the process
  may not bind it: the bind is refused with \<open>EACCES\<close>, the \<^verbatim>\<open>except OSError\<close>
  branch runs and the function returns the ephemeral port 49152, not 80. And when
  port 8000 is taken and the system has no ephemeral port left, the function returns
  no port at all: the second bind's \<open>OSError\<close> leaves the function.
\<close>

theorem find_free_port_free_port_counterexample:
  "80 \<notin> set (ports_taken os0)
   \<and> fst (find_free_port 80 os0) = Inr 49152
   \<and> 8000 \<in> set (ports_taken (os0\<lparr>eph_range := []\<rparr>))
   \<and> fst (find_free_port 8000 (os0\<lparr>eph_range := []\<rparr>)) = Inl (OSError EADDRINUSE)"
  by (simp add: find_free_port_closed_form os0_def ports_taken_def ephemeral_def Let_def)

text \<open>
  C2, amended. For a preferred port in \<open>1..65535\<close> that no socket holds and that the
  process is permitted to bind, \<open>find_free_port\<close> binds it and returns exactly that
  port. For a preferred port in \<open>1..65535\<close> that is already held, when the system has
  an ephemeral port \<open>q\<close> to assign, it returns \<open>q\<close>: a port of the ephemeral range,
  different from the preferred one, and unbound once the function has returned.
\<close>

theorem find_free_port_preferred_or_ephemeral:
  "(0 < preferred \<and> preferred \<le> 65535 \<and> preferred \<notin> set (ports_taken st)
      \<and> priv_below st \<le> preferred
    \<longrightarrow> fst (find_free_port preferred st) = Inr preferred
        \<and> Bound (fresh_fd st) preferred \<in> set (trace (snd (find_free_port preferred st))))
   \<and> (0 < preferred \<and> preferred \<le> 65535 \<and> preferred \<in> set (ports_taken st)
        \<and> ephemeral st = Some q
    \<longrightarrow> fst (find_free_port preferred st) = Inr q
        \<and> q \<noteq> preferred
        \<and> q \<in> set (eph_range st)
        \<and> q \<notin> set (ports_taken (snd (find_free_port preferred st))))"
  using ephemeral_free [of st q]
  by (auto simp add: find_free_port_closed_form Let_def ports_taken_def)

theorem find_free_port_preferred_or_ephemeral_witness:
  "(0::int) < 8080 \<and> (8080::int) \<le> 65535 \<and> 8080 \<notin> set (ports_taken os0)
   \<and> priv_below os0 \<le> 8080
   \<and> fst (find_free_port 8080 os0) = Inr 8080
   \<and> Bound (fresh_fd os0) 8080 \<in> set (trace (snd (find_free_port 8080 os0)))
   \<and> (0::int) < 8000 \<and> (8000::int) \<le> 65535 \<and> 8000 \<in> set (ports_taken os0)
   \<and> ephemeral os0 = Some 49152
   \<and> fst (find_free_port 8000 os0) = Inr 49152
   \<and> 49152 \<notin> set (ports_taken (snd (find_free_port 8000 os0)))"
  using find_free_port_preferred_or_ephemeral [of 8080 os0 0]
    find_free_port_preferred_or_ephemeral [of 8000 os0 49152]
  by (simp add: os0_def ports_taken_def ephemeral_def)

text \<open>
  C3, as stated, does not hold. For the port value 70000 the first bind fails with
  \<open>OverflowError\<close>, which \<^verbatim>\<open>except OSError\<close> does not catch: there is no second
  bind, and the exception leaves the function. And where the first bind fails with an
  \<open>OSError\<close> but the system has no ephemeral port to give, the function raises too.
\<close>

theorem find_free_port_invalid_port_counterexample:
  "fst (sock_bind (fresh_fd os0) 70000 (snd (socket_socket os0))) = Inl OverflowError
   \<and> find_free_port 70000 os0
       = (Inl OverflowError, os0\<lparr>trace := [Opened 1, BindCall 1 70000, Closed 1]\<rparr>)
   \<and> fst (sock_bind (fresh_fd (os0\<lparr>eph_range := []\<rparr>)) 8000
            (snd (socket_socket (os0\<lparr>eph_range := []\<rparr>)))) = Inl (OSError EADDRINUSE)
   \<and> fst (find_free_port 8000 (os0\<lparr>eph_range := []\<rparr>)) = Inl (OSError EADDRINUSE)"
  by (simp add: run_simps)

text \<open>
  C3, amended. Whenever the first bind fails with an \<open>OSError\<close>, whatever its error
  number (address in use, permission denied), \<open>find_free_port\<close> binds port \<open>0\<close>
  next and, when the system has an ephemeral port \<open>q\<close> to assign, returns \<open>q\<close>
  instead of raising: the probe makes exactly the two bind calls, for the preferred
  port and for port \<open>0\<close>.
\<close>

theorem find_free_port_falls_back_on_OSError:
  assumes "fst (sock_bind (fresh_fd st) preferred (snd (socket_socket st))) = Inl (OSError en)"
    and "ephemeral st = Some q"
  shows "fst (find_free_port preferred st) = Inr q
         \<and> new_events st (snd (find_free_port preferred st))
             = [Opened (fresh_fd st), BindCall (fresh_fd st) preferred,
                BindCall (fresh_fd st) 0, Bound (fresh_fd st) q, Closed (fresh_fd st)]"
  using assms
  by (simp add: first_bind_closed_form find_free_port_closed_form Let_def split: if_splits)

theorem find_free_port_falls_back_on_OSError_witness:
  "fst (sock_bind (fresh_fd os0) 80 (snd (socket_socket os0))) = Inl (OSError EACCES)
   \<and> ephemeral os0 = Some 49152
   \<and> fst (find_free_port 80 os0) = Inr 49152
   \<and> bind_calls (new_events os0 (snd (find_free_port 80 os0))) = [80, 0]"
proof -
  have h1: "fst (sock_bind (fresh_fd os0) 80 (snd (socket_socket os0))) = Inl (OSError EACCES)"
    by (simp add: run_simps)
  have h2: "ephemeral os0 = Some 49152"
    by (simp add: run_simps)
  show ?thesis
    using h1 h2 find_free_port_falls_back_on_OSError [OF h1 h2] by simp
qed

text \<open>
  C6. \<open>find_free_port\<close> never makes more than two bind calls. If the first bind fails
  with an \<open>OSError\<close> and the bind of port \<open>0\<close> fails as well, with an exception
  \<open>x\<close>, then \<open>find_free_port\<close> raises \<open>x\<close> after exactly those two calls, and
  \<open>main\<close> (given a valid directory) ends with \<open>x\<close> uncaught, in the state
  \<open>find_free_port\<close> left: no server was built and nothing was retried.
\<close>

theorem find_free_port_fallback_failure_propagates:
  "length (bind_calls (new_events st (snd (find_free_port (port a) st)))) \<le> 2
   \<and> (fst (sock_bind (fresh_fd st) (port a) (snd (socket_socket st))) = Inl (OSError en)
      \<and> fst (sock_bind (fresh_fd st) 0
                (snd (sock_bind (fresh_fd st) (port a) (snd (socket_socket st))))) = Inl x
      \<longrightarrow> fst (find_free_port (port a) st) = Inl x
          \<and> bind_calls (new_events st (snd (find_free_port (port a) st))) = [port a, 0]
          \<and> (isdir e (abspath e (dir a))
               \<longrightarrow> main e a st = (Raised x, snd (find_free_port (port a) st))))"
proof -
  have bounded: "length (bind_calls (new_events st (snd (find_free_port (port a) st)))) \<le> 2"
    by (simp add: find_free_port_closed_form Let_def split: option.splits)
  have raises: "fst (find_free_port (port a) st) = Inl x
          \<and> bind_calls (new_events st (snd (find_free_port (port a) st))) = [port a, 0]"
    if "fst (sock_bind (fresh_fd st) (port a) (snd (socket_socket st))) = Inl (OSError en)"
      and "fst (sock_bind (fresh_fd st) 0
                (snd (sock_bind (fresh_fd st) (port a) (snd (socket_socket st))))) = Inl x"
    using that
    by (auto simp add: find_free_port_closed_form probe_simps split: option.splits if_splits)
  have caller: "main e a st = (Raised x, snd (find_free_port (port a) st))"
    if "fst (find_free_port (port a) st) = Inl x" and "isdir e (abspath e (dir a))"
    using that by (cases "find_free_port (port a) st") (simp add: main_def main_startup_def)
  from bounded raises caller show ?thesis by blast
qed

theorem find_free_port_fallback_failure_propagates_witness:
  "fst (sock_bind (fresh_fd (os0\<lparr>eph_range := []\<rparr>)) 8000
          (snd (socket_socket (os0\<lparr>eph_range := []\<rparr>)))) = Inl (OSError EADDRINUSE)
   \<and> fst (sock_bind (fresh_fd (os0\<lparr>eph_range := []\<rparr>)) 0
            (snd (sock_bind (fresh_fd (os0\<lparr>eph_range := []\<rparr>)) 8000
                   (snd (socket_socket (os0\<lparr>eph_range := []\<rparr>)))))) = Inl (OSError EADDRINUSE)
   \<and> isdir env0 (abspath env0 ''.'')
   \<and> fst (find_free_port 8000 (os0\<lparr>eph_range := []\<rparr>)) = Inl (OSError EADDRINUSE)
   \<and> bind_calls (new_events (os0\<lparr>eph_range := []\<rparr>)
                   (snd (find_free_port 8000 (os0\<lparr>eph_range := []\<rparr>)))) = [8000, 0]
   \<and> fst (main env0 \<lparr>port = 8000, dir = ''.''\<rparr> (os0\<lparr>eph_range := []\<rparr>))
       = Raised (OSError EADDRINUSE)"
proof -
  let ?st = "os0\<lparr>eph_range := []\<rparr>"
  have h1: "fst (sock_bind (fresh_fd ?st) 8000 (snd (socket_socket ?st)))
            = Inl (OSError EADDRINUSE)"
    by (simp add: run_simps)
  have h2: "fst (sock_bind (fresh_fd ?st) 0
                  (snd (sock_bind (fresh_fd ?st) 8000 (snd (socket_socket ?st)))))
            = Inl (OSError EADDRINUSE)"
    by (simp add: run_simps)
  have h3: "isdir env0 (abspath env0 ''.'')"
    by (simp add: env0_def)
  show ?thesis
    using h1 h2 h3
      find_free_port_fallback_failure_propagates
        [of ?st "\<lparr>port = 8000, dir = ''.''\<rparr>" EADDRINUSE "OSError EADDRINUSE" env0]
    by simp
qed

text \<open>
  C7. Whatever the preferred port and the machine's state, and whether the function
  returns or raises, \<open>find_free_port\<close> opens exactly one socket and closes exactly
  that socket, as its last action: afterwards the process holds the sockets it held
  before and the same ports are taken.
\<close>

theorem find_free_port_closes_probe:
  "open_socks (snd (find_free_port preferred st)) = open_socks st
   \<and> ports_taken (snd (find_free_port preferred st)) = ports_taken st
   \<and> opened_fds (new_events st (snd (find_free_port preferred st))) = [fresh_fd st]
   \<and> closed_fds (new_events st (snd (find_free_port preferred st))) = [fresh_fd st]
   \<and> last (trace (snd (find_free_port preferred st))) = Closed (fresh_fd st)"
  by (simp add: find_free_port_closed_form Let_def ports_taken_def split: option.splits)

section \<open>Start-up\<close>

text \<open>
  C4. When the resolved \<^verbatim>\<open>--dir\<close> path is not an existing directory, \<open>main\<close> ends
  with \<open>SystemExit 1\<close>, so the process exits with status 1, and all it has done is
  print the one line naming the resolved path on standard error: the socket table is
  untouched and the trace has no socket event, so nothing was probed, bound or served.
\<close>

theorem main_rejects_missing_directory:
  assumes "\<not> isdir e (abspath e (dir a))"
  shows "main e a st =
           (Raised (SystemExit 1),
            st\<lparr>trace := trace st
                          @ [Stderr (''Error: directory not found: '' @ abspath e (dir a))]\<rparr>)
         \<and> exit_status (fst (main e a st)) = Some 1"
  using assms by (simp add: main_def main_startup_def emit_def)

theorem main_rejects_missing_directory_witness:
  "\<not> isdir env0 (abspath env0 ''/nope'')
   \<and> main env0 \<lparr>port = 8000, dir = ''/nope''\<rparr> os0
       = (Raised (SystemExit 1), os0\<lparr>trace := [Stderr ''Error: directory not found: /nope'']\<rparr>)
   \<and> exit_status (fst (main env0 \<lparr>port = 8000, dir = ''/nope''\<rparr> os0)) = Some 1"
proof -
  have h: "\<not> isdir env0 (abspath env0 (dir \<lparr>port = 8000, dir = ''/nope''\<rparr>))"
    by (simp add: env0_def)
  show ?thesis
    using h main_rejects_missing_directory [OF h, of os0]
    by (simp add: env0_def os0_def)
qed

text \<open>
  Where the announcement is right: when the requested port is not \<open>0\<close> (and the
  system never hands out \<open>0\<close> as an ephemeral port), the port printed at the end of
  start-up is one the process is listening on.
\<close>

lemma announced_port_listens_unless_zero:
  assumes "main_startup e a st = (Inr (httpd, p), st')"
    and "port a \<noteq> 0" and "0 \<notin> set (eph_range st)"
  shows "p \<in> set (listening_ports st')"
proof -
  obtain r st1 where ffp: "find_free_port (port a) st = (r, st1)"
    by (cases "find_free_port (port a) st")
  with assms(1) obtain p' where r: "r = Inr p'"
    by (cases r) (auto simp: main_startup_def Let_def split: if_splits)
  obtain r2 st2 where srv: "server_init p' st1 = (r2, st2)"
    by (cases "server_init p' st1")
  with ffp r assms(1) have r2: "r2 = Inr httpd" and p: "p = p'"
    and st': "listening_ports st' = listening_ports st2"
    by (cases r2; auto simp: main_startup_def Let_def listening_ports_emit split: if_splits)+
  from ffp r assms(2,3) have "p' \<noteq> 0"
    by (auto dest: find_free_port_nonzero)
  with srv r2 have "p' \<in> set (listening_ports st2)"
    by (auto dest: server_init_listens)
  with p st' show ?thesis by simp
qed

text \<open>
  C5 fails for the requested port \<open>0\<close>. The probe's bind of port \<open>0\<close> succeeds (the
  system picks 49152), so \<open>find_free_port\<close> takes its first branch and returns
  \<^verbatim>\<open>preferred\<close>, that is \<open>0\<close>, where its other branch would have asked
  \<^verbatim>\<open>getsockname\<close>. The server is then built on port \<open>0\<close> and listens on 49152,
  while the line printed says \<^verbatim>\<open>http://127.0.0.1:0\<close>: the announced port is not a
  port the process listens on.
\<close>

theorem main_startup_announces_port_zero:
  "fst (main_startup env0 \<lparr>port = 0, dir = ''.''\<rparr> os0) = Inr (1, 0)
   \<and> listening_ports (snd (main_startup env0 \<lparr>port = 0, dir = ''.''\<rparr> os0)) = [49152]
   \<and> trace (snd (main_startup env0 \<lparr>port = 0, dir = ''.''\<rparr> os0)) =
       [Opened 1, BindCall 1 0, Bound 1 49152, Closed 1,
        Opened 1, BindCall 1 0, Bound 1 49152, Listening 1,
        Stdout (''Serving '' @ [CHR 0x27] @ ''/srv/site'' @ [CHR 0x27]
                  @ '' at http://127.0.0.1:0''),
        Stdout ''Press Ctrl+C to stop.'']"
  by (simp add: run_simps)

section \<open>Shutdown\<close>

text \<open>
  C9. Once start-up has succeeded and \<^verbatim>\<open>serve_forever\<close> is interrupted by
  \<open>KeyboardInterrupt\<close>, \<open>main\<close> prints the shutdown message, closes the server's
  socket and returns, so the process exits with status 0.
\<close>

theorem main_interrupt_shuts_down:
  assumes "main_startup e a st = (Inr (httpd, p), st')"
    and "serve_forever e = Raises KeyboardInterrupt"
  shows "fst (main e a st) = Returned
         \<and> exit_status (fst (main e a st)) = Some 0
         \<and> new_events st' (snd (main e a st))
             = [ServeForever httpd, Stdout (CHR 0x0A # ''Shutting down...''), Closed httpd]
         \<and> httpd \<notin> fd ` set (open_socks (snd (main e a st)))
         \<and> open_socks (snd (main e a st)) = filter (\<lambda>k. fd k \<noteq> httpd) (open_socks st')"
  using assms
  by (auto simp add: main_def server_close_def sock_close_def emit_def new_events_def)

theorem main_interrupt_shuts_down_witness:
  "main_startup env0 \<lparr>port = 8000, dir = ''.''\<rparr> os0
     = (Inr (1, 49152), snd (main_startup env0 \<lparr>port = 8000, dir = ''.''\<rparr> os0))
   \<and> serve_forever env0 = Raises KeyboardInterrupt
   \<and> fst (main env0 \<lparr>port = 8000, dir = ''.''\<rparr> os0) = Returned
   \<and> exit_status (fst (main env0 \<lparr>port = 8000, dir = ''.''\<rparr> os0)) = Some 0
   \<and> new_events (snd (main_startup env0 \<lparr>port = 8000, dir = ''.''\<rparr> os0))
        (snd (main env0 \<lparr>port = 8000, dir = ''.''\<rparr> os0))
      = [ServeForever 1, Stdout (CHR 0x0A # ''Shutting down...''), Closed 1]
   \<and> 1 \<notin> fd ` set (open_socks (snd (main env0 \<lparr>port = 8000, dir = ''.''\<rparr> os0)))"
proof -
  let ?a = "\<lparr>port = 8000, dir = ''.''\<rparr>"
  have "fst (main_startup env0 ?a os0) = Inr (1, 49152)"
    by (simp add: run_simps)
  then have h1: "main_startup env0 ?a os0 = (Inr (1, 49152), snd (main_startup env0 ?a os0))"
    by (simp add: prod_eq_iff)
  have h2: "serve_forever env0 = Raises KeyboardInterrupt"
    by (simp add: env0_def)
  show ?thesis
    using h1 h2 main_interrupt_shuts_down [OF h1 h2] by blast
qed

text \<open>
  C10. Once start-up has succeeded, whatever exception \<open>x\<close> leaves
  \<^verbatim>\<open>serve_forever\<close>, the last thing \<open>main\<close> does is close the server's socket, which
  is then no longer open; \<open>main\<close> returns when \<open>x\<close> is \<open>KeyboardInterrupt\<close> and
  lets \<open>x\<close> through otherwise.
\<close>

theorem main_always_closes_server:
  assumes "main_startup e a st = (Inr (httpd, p), st')"
    and "serve_forever e = Raises x"
  shows "httpd \<notin> fd ` set (open_socks (snd (main e a st)))
         \<and> last (trace (snd (main e a st))) = Closed httpd
         \<and> fst (main e a st) = (if x = KeyboardInterrupt then Returned else Raised x)"
  using assms
  by (auto simp add: main_def server_close_def sock_close_def emit_def)

theorem main_always_closes_server_witness:
  "main_startup (env0\<lparr>serve_forever := Raises (OSError EBADF)\<rparr>) \<lparr>port = 8080, dir = ''.''\<rparr> os0
     = (Inr (1, 8080),
        snd (main_startup (env0\<lparr>serve_forever := Raises (OSError EBADF)\<rparr>)
               \<lparr>port = 8080, dir = ''.''\<rparr> os0))
   \<and> serve_forever (env0\<lparr>serve_forever := Raises (OSError EBADF)\<rparr>) = Raises (OSError EBADF)
   \<and> 1 \<notin> fd ` set (open_socks (snd (main (env0\<lparr>serve_forever := Raises (OSError EBADF)\<rparr>)
                                          \<lparr>port = 8080, dir = ''.''\<rparr> os0)))
   \<and> last (trace (snd (main (env0\<lparr>serve_forever := Raises (OSError EBADF)\<rparr>)
                          \<lparr>port = 8080, dir = ''.''\<rparr> os0))) = Closed 1
   \<and> fst (main (env0\<lparr>serve_forever := Raises (OSError EBADF)\<rparr>) \<lparr>port = 8080, dir = ''.''\<rparr> os0)
       = Raised (OSError EBADF)"
proof -
  let ?e = "env0\<lparr>serve_forever := Raises (OSError EBADF)\<rparr>"
  let ?a = "\<lparr>port = 8080, dir = ''.''\<rparr>"
  have "fst (main_startup ?e ?a os0) = Inr (1, 8080)"
    by (simp add: run_simps)
  then have h1: "main_startup ?e ?a os0 = (Inr (1, 8080), snd (main_startup ?e ?a os0))"
    by (simp add: prod_eq_iff)
  have h2: "serve_forever ?e = Raises (OSError EBADF)"
    by simp
  have "1 \<notin> fd ` set (open_socks (snd (main ?e ?a os0)))
        \<and> last (trace (snd (main ?e ?a os0))) = Closed 1
        \<and> fst (main ?e ?a os0) = Raised (OSError EBADF)"
    using main_always_closes_server [OF h1 h2] by simp
  with h1 h2 show ?thesis by blast
qed

end
